theory Spec2Isabelle
  imports
    Main
    "HOL-Library.Sublist"
    "HOL-Library.Multiset"
    "HOL-Library.Char_ord"
    "HOL-Library.List_Lexorder"
    "HOL-Library.Word"
begin

section \<open>Errors\<close>

text \<open>
  A Go \<^verbatim>\<open>error\<close> is a value. \<^verbatim>\<open>fmt.Errorf("msg")\<close> is \<open>Errorf ''msg''\<close>,
  \<^verbatim>\<open>fmt.Errorf("msg: %w", err)\<close> is \<open>Wrapf ''msg'' err\<close>, and a panic (of
  \<^verbatim>\<open>path.MustParse\<close>) is \<open>Panic err\<close>. A function returning \<^verbatim>\<open>(T, error)\<close> returns
  \<open>error + T\<close>, with \<open>Inl\<close> for the error.
\<close>

datatype error = Errorf string | Wrapf string error | Panic error

section \<open>Package strings\<close>

definition strings_HasPrefix :: "string \<Rightarrow> string \<Rightarrow> bool" where
  "strings_HasPrefix s pre \<longleftrightarrow> length pre \<le> length s \<and> take (length pre) s = pre"

definition strings_HasSuffix :: "string \<Rightarrow> string \<Rightarrow> bool" where
  "strings_HasSuffix s suf \<longleftrightarrow>
     length suf \<le> length s \<and> drop (length s - length suf) s = suf"

definition strings_TrimPrefix :: "string \<Rightarrow> string \<Rightarrow> string" where
  "strings_TrimPrefix s pre = (if strings_HasPrefix s pre then drop (length pre) s else s)"

definition strings_TrimSuffix :: "string \<Rightarrow> string \<Rightarrow> string" where
  "strings_TrimSuffix s suf =
     (if strings_HasSuffix s suf then take (length s - length suf) s else s)"

section \<open>Package path\<close>

text \<open>
  Modelled from the spec: the package \<^verbatim>\<open>internal/path\<close> (type \<^verbatim>\<open>Path\<close> and its
  operations) is not among the sources. The specification describes it as a normalized
  path type with explicit prefix, join, strip, common-prefix and parent operations, and
  archive entry names as '/'-separated relative paths. A path is the list of its items.
\<close>

datatype Path = Path (pathItems: "string list")

text \<open>Modelled from the spec: \<^verbatim>\<open>path.MakeEmpty\<close>, the empty (root) path.\<close>

definition MakeEmpty :: Path where
  "MakeEmpty = Path []"

text \<open>Modelled from the spec: \<^verbatim>\<open>Path.IsEmpty\<close>.\<close>

definition IsEmpty :: "Path \<Rightarrow> bool" where
  "IsEmpty f \<longleftrightarrow> pathItems f = []"

text \<open>Modelled from the spec: \<^verbatim>\<open>Path.HasPrefix\<close>, "has sourcePrefix as a path-prefix".\<close>

definition HasPrefix :: "Path \<Rightarrow> Path \<Rightarrow> bool" where
  "HasPrefix f pre \<longleftrightarrow> prefix (pathItems pre) (pathItems f)"

text \<open>
  Modelled from the spec: \<^verbatim>\<open>Path.TrimPrefix\<close>, the prefix-strip. The specification
  uses it only on a path that has the prefix; a path without the prefix is returned as
  it is.
\<close>

definition TrimPrefix :: "Path \<Rightarrow> Path \<Rightarrow> Path" where
  "TrimPrefix f pre =
     (if HasPrefix f pre then Path (drop (length (pathItems pre)) (pathItems f)) else f)"

text \<open>Modelled from the spec: \<^verbatim>\<open>Path.Join\<close>.\<close>

definition Join :: "Path \<Rightarrow> Path \<Rightarrow> Path" where
  "Join f g = Path (pathItems f @ pathItems g)"

text \<open>
  Modelled from the spec: \<^verbatim>\<open>Path.Dir\<close>, the parent. The source shows that it can fail;
  the empty path is the one path without a parent.
\<close>

definition Dir :: "Path \<Rightarrow> error + Path" where
  "Dir f =
     (if pathItems f = [] then Inl (Errorf ''cannot get the directory of an empty path'')
      else Inr (Path (butlast (pathItems f))))"

text \<open>
  Modelled from the spec: \<^verbatim>\<open>path.ExtractLongestCommonPath\<close>, the longest common path
  prefix of all the paths, item by item; of no path at all, the empty path.
\<close>

fun commonItems :: "string list \<Rightarrow> string list \<Rightarrow> string list" where
  "commonItems (x # xs) (y # ys) = (if x = y then x # commonItems xs ys else [])"
| "commonItems _ _ = []"

fun ExtractLongestCommonPath :: "Path list \<Rightarrow> Path" where
  "ExtractLongestCommonPath [] = MakeEmpty"
| "ExtractLongestCommonPath (p # ps) = Path (foldl commonItems (pathItems p) (map pathItems ps))"

text \<open>Modelled from the spec: \<^verbatim>\<open>Path.String\<close>, the items separated by '/'.\<close>

fun joinItems :: "string list \<Rightarrow> string" where
  "joinItems [] = []"
| "joinItems [x] = x"
| "joinItems (x # y # ys) = x @ ''/'' @ joinItems (y # ys)"

definition String :: "Path \<Rightarrow> string" where
  "String f = joinItems (pathItems f)"

text \<open>
  \<^verbatim>\<open>path.Parse\<close> is not among the sources either, and the specification does not say
  which strings are valid paths. Every function below that parses takes the parser as its
  first argument \<open>parse\<close>, and nothing is assumed about it.

  Modelled from the spec: \<^verbatim>\<open>path.MustParse\<close> panics where \<^verbatim>\<open>path.Parse\<close> fails.
\<close>

type_synonym parser = "string \<Rightarrow> error + Path"

definition MustParse :: "parser \<Rightarrow> string \<Rightarrow> error + Path" where
  "MustParse parse s = (case parse s of Inl err \<Rightarrow> Inl (Panic err) | Inr p \<Rightarrow> Inr p)"

section \<open>Metadata\<close>

text \<open>
  Modelled from the spec: \<^verbatim>\<open>metadata.go\<close> is not among the sources. The manifest is a
  JSON object with the keys \<^verbatim>\<open>tooth\<close>, \<^verbatim>\<open>asset_url\<close> and \<^verbatim>\<open>files.place\<close>, a list of
  \<^verbatim>\<open>{src, dest}\<close>; \<^verbatim>\<open>Metadata\<close> wraps the raw manifest. The names \<open>Files\<close>,
  \<open>Place\<close>, \<open>Src\<close> and \<open>Dest\<close> are those the source uses.
\<close>

record RawMetadataFilesPlaceItem =
  Src :: string
  Dest :: string

record RawMetadataFiles =
  Place :: "RawMetadataFilesPlaceItem list"

record RawMetadata =
  Tooth :: string
  Asset_url :: string
  Files :: RawMetadataFiles

datatype Metadata = Metadata (Raw: RawMetadata)

definition ToothRepoPath :: "Metadata \<Rightarrow> string" where
  "ToothRepoPath m = Tooth (Raw m)"

definition AssetURL :: "Metadata \<Rightarrow> string" where
  "AssetURL m = Asset_url (Raw m)"

section \<open>Wildcard resolution (archive.go)\<close>

text \<open>
  The inner loop of \<^verbatim>\<open>populateMetadataFilePlaceWildcards\<close> (lines 154 to 165): one
  concrete rule is appended for every file path that has the source prefix.
\<close>

fun placeFilePaths ::
  "Path \<Rightarrow> Path \<Rightarrow> Path list \<Rightarrow> RawMetadataFilesPlaceItem list \<Rightarrow>
   RawMetadataFilesPlaceItem list" where
  "placeFilePaths sourcePathPrefix destPathPrefix [] newPlace = newPlace"
| "placeFilePaths sourcePathPrefix destPathPrefix (filePath # filePaths) newPlace =
     (if \<not> HasPrefix filePath sourcePathPrefix
      then placeFilePaths sourcePathPrefix destPathPrefix filePaths newPlace
      else
        let relFilePath = TrimPrefix filePath sourcePathPrefix in
        placeFilePaths sourcePathPrefix destPathPrefix filePaths
          (newPlace @
           [\<lparr>Src = String filePath, Dest = String (Join destPathPrefix relFilePath)\<rparr>]))"

text \<open>The outer loop (lines 137 to 166), with \<open>newPlace\<close> as its accumulator.\<close>

fun placeItems ::
  "parser \<Rightarrow> Path list \<Rightarrow> RawMetadataFilesPlaceItem list \<Rightarrow>
   RawMetadataFilesPlaceItem list \<Rightarrow> error + RawMetadataFilesPlaceItem list" where
  "placeItems parse filePaths [] newPlace = Inr newPlace"
| "placeItems parse filePaths (placeItem # rest) newPlace =
     (if \<not> strings_HasSuffix (Src placeItem) ''*''
      then placeItems parse filePaths rest (newPlace @ [placeItem])
      else
        case parse (strings_TrimSuffix (Src placeItem) ''*'') of
          Inl err \<Rightarrow> Inl (Wrapf ''failed to parse source path prefix'' err)
        | Inr sourcePathPrefix \<Rightarrow>
            (case parse (Dest placeItem) of
               Inl err \<Rightarrow> Inl (Wrapf ''failed to parse destination path prefix'' err)
             | Inr destPathPrefix \<Rightarrow>
                 placeItems parse filePaths rest
                   (placeFilePaths sourcePathPrefix destPathPrefix filePaths newPlace)))"

definition populateMetadataFilePlaceWildcards ::
  "parser \<Rightarrow> Metadata \<Rightarrow> Path list \<Rightarrow> error + Metadata" where
  "populateMetadataFilePlaceWildcards parse metadata filePaths =
     (let rawMetadata = Raw metadata in
      case placeItems parse filePaths (Place (Files rawMetadata)) [] of
        Inl err \<Rightarrow> Inl err
      | Inr newPlace \<Rightarrow>
          Inr (Metadata (rawMetadata\<lparr>Files := (Files rawMetadata)\<lparr>Place := newPlace\<rparr>\<rparr>)))"

text \<open>
  The resolution of one rule as the specification words it (section 4.2), given the
  parsed source prefix and destination prefix of the rule.
\<close>

definition concreteRule :: "Path \<Rightarrow> Path \<Rightarrow> Path \<Rightarrow> RawMetadataFilesPlaceItem" where
  "concreteRule sourcePrefix destPrefix candidatePath =
     \<lparr>Src = String candidatePath,
      Dest = String (Join destPrefix (TrimPrefix candidatePath sourcePrefix))\<rparr>"



section \<open>The collaborators\<close>

text \<open>
  A zip archive as \<^verbatim>\<open>archive/zip\<close> presents it: the entries in order, each with its
  name; opening an entry can fail, and so can reading it to the end.
\<close>

type_synonym Reader = "error + string"

record zip_File =
  Name :: string
  Open :: "error + Reader"

record ReadCloser =
  File :: "zip_File list"

text \<open>
  The version type of the library \<^verbatim>\<open>github.com/blang/semver/v4\<close>, with the library's
  comparison: major, minor and patch numerically; a version without pre-release
  identifiers is above one with; identifiers are compared one by one, a numeric one below
  an alphanumeric one, and a list that runs out first is below.
\<close>

record PRVersion =
  VersionStr :: string
  VersionNum :: "64 word"
  IsNum :: bool

record Version =
  Major :: "64 word"
  Minor :: "64 word"
  Patch :: "64 word"
  Pre :: "PRVersion list"
  Build :: "string list"

definition PRVersion_Compare :: "PRVersion \<Rightarrow> PRVersion \<Rightarrow> int" where
  "PRVersion_Compare v o' =
     (if IsNum v \<and> \<not> IsNum o' then - 1
      else if \<not> IsNum v \<and> IsNum o' then 1
      else if IsNum v \<and> IsNum o' then
        (if VersionNum v = VersionNum o' then 0
         else if VersionNum v > VersionNum o' then 1 else - 1)
      else
        (if VersionStr v = VersionStr o' then 0
         else if VersionStr v > VersionStr o' then 1 else - 1))"

fun comparePre :: "PRVersion list \<Rightarrow> PRVersion list \<Rightarrow> int" where
  "comparePre (x # xs) (y # ys) =
     (if PRVersion_Compare x y = 0 then comparePre xs ys
      else if PRVersion_Compare x y = 1 then 1 else - 1)"
| "comparePre [] [] = 0"
| "comparePre [] (y # ys) = - 1"
| "comparePre (x # xs) [] = 1"

definition Compare :: "Version \<Rightarrow> Version \<Rightarrow> int" where
  "Compare v o' =
     (if Major v \<noteq> Major o' then (if Major v > Major o' then 1 else - 1)
      else if Minor v \<noteq> Minor o' then (if Minor v > Minor o' then 1 else - 1)
      else if Patch v \<noteq> Patch o' then (if Patch v > Patch o' then 1 else - 1)
      else if length (Pre v) = 0 \<and> length (Pre o') = 0 then 0
      else if length (Pre v) = 0 \<and> length (Pre o') > 0 then 1
      else if length (Pre v) > 0 \<and> length (Pre o') = 0 then - 1
      else comparePre (Pre v) (Pre o'))"

definition LT :: "Version \<Rightarrow> Version \<Rightarrow> bool" where
  "LT v o' \<longleftrightarrow> Compare v o' = - 1"

text \<open>
  What the functions of \<^verbatim>\<open>archive.go\<close> and \<^verbatim>\<open>utils.go\<close> call and the sources do not
  hold: the parser of paths, the zip reader (\<^verbatim>\<open>gozip.OpenReader\<close> on the local string of
  a path), \<^verbatim>\<open>zip.GetFilePaths\<close>, \<^verbatim>\<open>MakeMetadata\<close>, the file system
  (\<^verbatim>\<open>filepath.Glob\<close> on the pattern \<^verbatim>\<open>*.json\<close> in a directory, \<^verbatim>\<open>os.ReadFile\<close>),
  \<^verbatim>\<open>strings.ToLower\<close>, the sorting functions \<^verbatim>\<open>sort.Slice\<close> and \<^verbatim>\<open>semver.Sort\<close>,
  \<^verbatim>\<open>module.CheckPath\<close>, the network and \<^verbatim>\<open>semver.Parse\<close>. They are the fields of one
  record, and every theorem holds for all of them.
\<close>

record deps =
  path_Parse :: parser
  gozip_OpenReader :: "Path \<Rightarrow> error + ReadCloser"
  zip_GetFilePaths :: "ReadCloser \<Rightarrow> error + Path list"
  MakeMetadata :: "string \<Rightarrow> error + Metadata"
  filepath_Glob :: "Path \<Rightarrow> error + string list"
  os_ReadFile :: "string \<Rightarrow> error + string"
  strings_ToLower :: "string \<Rightarrow> string"
  sort_Slice :: "(Metadata \<Rightarrow> Metadata \<Rightarrow> bool) \<Rightarrow> Metadata list \<Rightarrow> Metadata list"
  module_CheckPath :: "string \<Rightarrow> error option"
  network_GenerateGoModuleVersionListURL :: "string \<Rightarrow> string \<Rightarrow> error + string"
  network_GetContent :: "string \<Rightarrow> error + string"
  semver_Parse :: "string \<Rightarrow> error + Version"
  semver_Sort :: "Version list \<Rightarrow> Version list"

text \<open>What the methods of \<^verbatim>\<open>context.Context\<close> return.\<close>

record Context =
  MetadataDir :: "error + Path"
  GoModuleProxyURL :: "error + string"

text \<open>
  The contract of a sorting function with the order \<open>lt\<close>, at one input: the output
  is a rearrangement of the input, and no later element is less than an earlier one.
  Neither \<^verbatim>\<open>sort.Slice\<close> nor \<^verbatim>\<open>sort.Sort\<close> is stable.
\<close>

definition sortedBy :: "('a \<Rightarrow> 'a \<Rightarrow> bool) \<Rightarrow> 'a list \<Rightarrow> bool" where
  "sortedBy lt ys \<longleftrightarrow> sorted_wrt (\<lambda>a b. \<not> lt b a) ys"

definition sorts :: "('a \<Rightarrow> 'a \<Rightarrow> bool) \<Rightarrow> 'a list \<Rightarrow> 'a list \<Rightarrow> bool" where
  "sorts lt xs ys \<longleftrightarrow> mset ys = mset xs \<and> sortedBy lt ys"

section \<open>MakeArchive (archive.go)\<close>

record Archive =
  ar_metadata :: Metadata
  ar_assetArchiveFilePath :: Path
  ar_assetArchiveFilePathRoot :: Path

definition ConfigMismatch :: error where
  "ConfigMismatch =
     Errorf ''asset URL and archive file path must be both specified or both empty''"

definition ManifestNotFound :: error where
  "ManifestNotFound = Errorf ''archive does not contain tooth.json''"

text \<open>Lines 34 to 41: the root of the file paths.\<close>

definition filePathRootOf :: "Path list \<Rightarrow> error + Path" where
  "filePathRootOf filePaths =
     (let filePathRoot = ExtractLongestCommonPath filePaths in
      if length filePaths = 1 then
        (case Dir filePathRoot of
           Inl err \<Rightarrow> Inl (Wrapf ''failed to get directory of tooth.json'' err)
         | Inr dir \<Rightarrow> Inr dir)
      else Inr filePathRoot)"

text \<open>Lines 43 to 54: the entry of the archive named as \<^verbatim>\<open>tooth.json\<close> under the root.\<close>

definition findToothJSON :: "parser \<Rightarrow> ReadCloser \<Rightarrow> Path \<Rightarrow> error + zip_File" where
  "findToothJSON parse r filePathRoot =
     (case MustParse parse ''tooth.json'' of
        Inl err \<Rightarrow> Inl err
      | Inr toothJSON \<Rightarrow>
          let toothJSONFilePath = Join filePathRoot toothJSON in
          (case find (\<lambda>file. Name file = String toothJSONFilePath) (File r) of
             None \<Rightarrow> Inl ManifestNotFound
           | Some toothJSONFile \<Rightarrow> Inr toothJSONFile))"

text \<open>Lines 56 to 72: the manifest read and parsed.\<close>

definition readToothJSON :: "deps \<Rightarrow> zip_File \<Rightarrow> error + Metadata" where
  "readToothJSON d toothJSONFile =
     (case Open toothJSONFile of
        Inl err \<Rightarrow> Inl (Wrapf ''failed to open tooth.json'' err)
      | Inr toothJSONFileReader \<Rightarrow>
          (case toothJSONFileReader of
             Inl err \<Rightarrow> Inl (Wrapf ''failed to read tooth.json'' err)
           | Inr toothJSONBytes \<Rightarrow>
               (case MakeMetadata d toothJSONBytes of
                  Inl err \<Rightarrow> Inl (Wrapf ''failed to parse tooth.json'' err)
                | Inr metadata \<Rightarrow> Inr metadata)))"

text \<open>Lines 23 to 72: the file paths, the root and the manifest of the archive.\<close>

definition loadArchive :: "deps \<Rightarrow> Path \<Rightarrow> error + (Path list \<times> Path \<times> Metadata)" where
  "loadArchive d archiveFilePath =
     (case gozip_OpenReader d archiveFilePath of
        Inl err \<Rightarrow> Inl (Wrapf ''failed to open archive'' err)
      | Inr r \<Rightarrow>
          (case zip_GetFilePaths d r of
             Inl err \<Rightarrow> Inl (Wrapf ''failed to extract file paths'' err)
           | Inr filePaths \<Rightarrow>
               (case filePathRootOf filePaths of
                  Inl err \<Rightarrow> Inl err
                | Inr filePathRoot \<Rightarrow>
                    (case findToothJSON (path_Parse d) r filePathRoot of
                       Inl err \<Rightarrow> Inl err
                     | Inr toothJSONFile \<Rightarrow>
                         (case readToothJSON d toothJSONFile of
                            Inl err \<Rightarrow> Inl err
                          | Inr metadata \<Rightarrow> Inr (filePaths, filePathRoot, metadata))))))"

text \<open>Lines 74 to 112: the validation and the two branches.\<close>

definition resolveArchive ::
  "parser \<Rightarrow> Path \<Rightarrow> Path \<Rightarrow> Path list \<Rightarrow> Path \<Rightarrow> Metadata \<Rightarrow> error + Archive" where
  "resolveArchive parse archiveFilePath assetArchiveFilePath filePaths filePathRoot metadata =
     (if (AssetURL metadata = [] \<and> \<not> IsEmpty assetArchiveFilePath) \<or>
         (AssetURL metadata \<noteq> [] \<and> IsEmpty assetArchiveFilePath)
      then Inl ConfigMismatch
      else if IsEmpty assetArchiveFilePath then
        (let filePathsTrimmed = map (\<lambda>filePath. TrimPrefix filePath filePathRoot) filePaths in
         case populateMetadataFilePlaceWildcards parse metadata filePathsTrimmed of
           Inl err \<Rightarrow>
             Inl (Wrapf ''failed to resolve metadata files place regular expressions'' err)
         | Inr metadataWithoutWildcards \<Rightarrow>
             Inr \<lparr>ar_metadata = metadataWithoutWildcards,
                  ar_assetArchiveFilePath = archiveFilePath,
                  ar_assetArchiveFilePathRoot = filePathRoot\<rparr>)
      else
        (case populateMetadataFilePlaceWildcards parse metadata filePaths of
           Inl err \<Rightarrow>
             Inl (Wrapf ''failed to resolve metadata files place regular expressions'' err)
         | Inr metadataWithoutWildcards \<Rightarrow>
             Inr \<lparr>ar_metadata = metadataWithoutWildcards,
                  ar_assetArchiveFilePath = assetArchiveFilePath,
                  ar_assetArchiveFilePathRoot = MakeEmpty\<rparr>))"

definition MakeArchive :: "deps \<Rightarrow> Path \<Rightarrow> Path \<Rightarrow> error + Archive" where
  "MakeArchive d archiveFilePath assetArchiveFilePath =
     (case loadArchive d archiveFilePath of
        Inl err \<Rightarrow> Inl err
      | Inr (filePaths, filePathRoot, metadata) \<Rightarrow>
          resolveArchive (path_Parse d) archiveFilePath assetArchiveFilePath
            filePaths filePathRoot metadata)"

section \<open>Installed metadata (utils.go)\<close>

definition NotFound :: "string \<Rightarrow> error" where
  "NotFound toothRepoPath = Errorf (''cannot find installed tooth metadata: '' @ toothRepoPath)"

text \<open>What the body of the loop of \<^verbatim>\<open>GetAllMetadata\<close> gives for one file.\<close>

definition readMetadataFile :: "deps \<Rightarrow> string \<Rightarrow> error + Metadata" where
  "readMetadataFile d filePath =
     (case os_ReadFile d filePath of
        Inl err \<Rightarrow> Inl (Wrapf ''failed to read metadata file'' err)
      | Inr jsonBytes \<Rightarrow>
          (case MakeMetadata d jsonBytes of
             Inl err \<Rightarrow> Inl (Wrapf ''failed to parse metadata file'' err)
           | Inr metadata \<Rightarrow> Inr metadata))"

text \<open>The loop of \<^verbatim>\<open>GetAllMetadata\<close> (lines 51 to 63), with \<open>metadataList\<close> as accumulator.\<close>

fun readMetadataFiles :: "deps \<Rightarrow> string list \<Rightarrow> Metadata list \<Rightarrow> error + Metadata list" where
  "readMetadataFiles d [] metadataList = Inr metadataList"
| "readMetadataFiles d (filePath # filePaths) metadataList =
     (case os_ReadFile d filePath of
        Inl err \<Rightarrow> Inl (Wrapf ''failed to read metadata file'' err)
      | Inr jsonBytes \<Rightarrow>
          (case MakeMetadata d jsonBytes of
             Inl err \<Rightarrow> Inl (Wrapf ''failed to parse metadata file'' err)
           | Inr metadata \<Rightarrow> readMetadataFiles d filePaths (metadataList @ [metadata])))"

text \<open>The order given to \<^verbatim>\<open>sort.Slice\<close> (lines 67 to 70).\<close>

definition lessRepoPath :: "deps \<Rightarrow> Metadata \<Rightarrow> Metadata \<Rightarrow> bool" where
  "lessRepoPath d a b \<longleftrightarrow>
     strings_ToLower d (ToothRepoPath a) < strings_ToLower d (ToothRepoPath b)"

definition GetAllMetadata :: "deps \<Rightarrow> Context \<Rightarrow> error + Metadata list" where
  "GetAllMetadata d ctx =
     (case MetadataDir ctx of
        Inl err \<Rightarrow> Inl (Wrapf ''failed to get metadata directory'' err)
      | Inr metadataDir \<Rightarrow>
          (case filepath_Glob d metadataDir of
             Inl err \<Rightarrow> Inl (Wrapf ''failed to list metadata files'' err)
           | Inr filePaths \<Rightarrow>
               (case readMetadataFiles d filePaths [] of
                  Inl err \<Rightarrow> Inl err
                | Inr metadataList \<Rightarrow> Inr (sort_Slice d (lessRepoPath d) metadataList))))"

fun anyRepoPath :: "Metadata list \<Rightarrow> string \<Rightarrow> bool" where
  "anyRepoPath [] toothRepoPath = False"
| "anyRepoPath (metadata # metadataList) toothRepoPath =
     (if ToothRepoPath metadata = toothRepoPath then True
      else anyRepoPath metadataList toothRepoPath)"

definition IsInstalled :: "deps \<Rightarrow> Context \<Rightarrow> string \<Rightarrow> error + bool" where
  "IsInstalled d ctx toothRepoPath =
     (case GetAllMetadata d ctx of
        Inl err \<Rightarrow> Inl (Wrapf ''failed to list all installed tooth metadata'' err)
      | Inr metadataList \<Rightarrow> Inr (anyRepoPath metadataList toothRepoPath))"

fun firstRepoPath :: "Metadata list \<Rightarrow> string \<Rightarrow> error + Metadata" where
  "firstRepoPath [] toothRepoPath = Inl (NotFound toothRepoPath)"
| "firstRepoPath (metadata # metadataList) toothRepoPath =
     (if ToothRepoPath metadata = toothRepoPath then Inr metadata
      else firstRepoPath metadataList toothRepoPath)"

definition GetMetadata :: "deps \<Rightarrow> Context \<Rightarrow> string \<Rightarrow> error + Metadata" where
  "GetMetadata d ctx toothRepoPath =
     (case GetAllMetadata d ctx of
        Inl err \<Rightarrow> Inl (Wrapf ''failed to list all installed tooth metadata'' err)
      | Inr metadataList \<Rightarrow> firstRepoPath metadataList toothRepoPath)"

section \<open>Versions (utils.go)\<close>

text \<open>
  \<^verbatim>\<open>bufio.Scanner\<close> with its default split function \<^verbatim>\<open>ScanLines\<close>: a line ends at a
  newline or at the end of the input, and a carriage return at its end is dropped. The
  buffer of the scanner holds at most \<^verbatim>\<open>MaxScanTokenSize\<close> bytes; on a line that does
  not fit, \<^verbatim>\<open>Scan\<close> returns false for good (the error \<^verbatim>\<open>ErrTooLong\<close>, which
  \<^verbatim>\<open>GetAvailableVersions\<close> does not read).
\<close>

definition MaxScanTokenSize :: nat where
  "MaxScanTokenSize = 64 * 1024"

definition dropCR :: "string \<Rightarrow> string" where
  "dropCR data = (if data \<noteq> [] \<and> last data = CHR 0x0D then butlast data else data)"

definition firstLine :: "string \<Rightarrow> string" where
  "firstLine data = takeWhile (\<lambda>c. c \<noteq> CHR 0x0A) data"

function scanLines :: "string \<Rightarrow> string list" where
  "scanLines data =
     (if data = [] then []
      else if MaxScanTokenSize \<le> length (firstLine data) then []
      else dropCR (firstLine data) # scanLines (drop (length (firstLine data) + 1) data))"
  by pat_completeness auto
termination
  by (relation "measure length") auto

text \<open>All the lines of a text, of any length: what "split into lines" says.\<close>

function rawLines :: "string \<Rightarrow> string list" where
  "rawLines data =
     (if data = [] then []
      else firstLine data # rawLines (drop (length (firstLine data) + 1) data))"
  by pat_completeness auto
termination
  by (relation "measure length") auto

definition allLines :: "string \<Rightarrow> string list" where
  "allLines data = map dropCR (rawLines data)"

text \<open>The body of the loop over the lines (lines 124 to 133).\<close>

definition versionString :: "string \<Rightarrow> string" where
  "versionString line =
     strings_TrimSuffix (strings_TrimPrefix line ''v'') ''+incompatible''"

text \<open>The version that a line gives, if it gives one.\<close>

definition parsedVersion :: "deps \<Rightarrow> string \<Rightarrow> Version option" where
  "parsedVersion d line =
     (case semver_Parse d (versionString line) of
        Inl err \<Rightarrow> None
      | Inr version \<Rightarrow> Some version)"

fun parseLines :: "deps \<Rightarrow> string list \<Rightarrow> Version list \<Rightarrow> Version list" where
  "parseLines d [] versionList = versionList"
| "parseLines d (line # lines) versionList =
     (case semver_Parse d (versionString line) of
        Inl err \<Rightarrow> parseLines d lines versionList
      | Inr version \<Rightarrow> parseLines d lines (versionList @ [version]))"

text \<open>The loop that reverses the list in place (lines 138 to 140); \<open>i\<close> and \<open>j\<close> are ints.\<close>

function reverseLoop :: "int \<Rightarrow> int \<Rightarrow> 'a list \<Rightarrow> 'a list" where
  "reverseLoop i j versionList =
     (if i < j
      then reverseLoop (i + 1) (j - 1)
             (versionList[nat i := versionList ! nat j, nat j := versionList ! nat i])
      else versionList)"
  by pat_completeness auto
termination
  by (relation "measure (\<lambda>(i, j, versionList). nat (j - i))") auto

declare scanLines.simps [simp del] rawLines.simps [simp del] reverseLoop.simps [simp del]

text \<open>Lines 119 to 142: from the content fetched to the list returned.\<close>

definition versionsOfContent :: "deps \<Rightarrow> string \<Rightarrow> Version list" where
  "versionsOfContent d content =
     (let versionList = semver_Sort d (parseLines d (scanLines content) []) in
      reverseLoop 0 (int (length versionList) - 1) versionList)"

definition GetAvailableVersions :: "deps \<Rightarrow> Context \<Rightarrow> string \<Rightarrow> error + Version list" where
  "GetAvailableVersions d ctx toothRepoPath =
     (case module_CheckPath d toothRepoPath of
        Some err \<Rightarrow> Inl (Errorf (''invalid repository path: '' @ toothRepoPath))
      | None \<Rightarrow>
          (case GoModuleProxyURL ctx of
             Inl err \<Rightarrow> Inl (Wrapf ''failed to get go module proxy URL'' err)
           | Inr goModuleProxyURL \<Rightarrow>
               (case network_GenerateGoModuleVersionListURL d toothRepoPath goModuleProxyURL of
                  Inl err \<Rightarrow> Inl (Wrapf ''failed to generate version list URL'' err)
                | Inr versionURL \<Rightarrow>
                    (case network_GetContent d versionURL of
                       Inl err \<Rightarrow> Inl (Wrapf ''failed to fetch version list'' err)
                     | Inr content \<Rightarrow> Inr (versionsOfContent d content)))))"

definition NoStableVersion :: error where
  "NoStableVersion = Errorf ''cannot find latest stable version''"

fun firstStable :: "Version list \<Rightarrow> error + Version" where
  "firstStable [] = Inl NoStableVersion"
| "firstStable (version # versionList) =
     (if length (Pre version) = 0 then Inr version else firstStable versionList)"

definition GetLatestStableVersion :: "deps \<Rightarrow> Context \<Rightarrow> string \<Rightarrow> error + Version" where
  "GetLatestStableVersion d ctx toothRepoPath =
     (case GetAvailableVersions d ctx toothRepoPath of
        Inl err \<Rightarrow> Inl (Wrapf ''failed to get available version list'' err)
      | Inr versionList \<Rightarrow> firstStable versionList)"

section \<open>Properties as the specification states them\<close>

text \<open>
  The invariant of the metadata of an archive, as the data model of the specification
  states it: no source contains the wildcard marker, and every source names a path of the
  file list the rules were resolved against.
\<close>

definition resolvedInvariant :: "Path list \<Rightarrow> Metadata \<Rightarrow> bool" where
  "resolvedInvariant candidatePaths metadata \<longleftrightarrow>
     (\<forall>rule\<in>set (Place (Files (Raw metadata))).
        CHR ''*'' \<notin> set (Src rule) \<and> Src rule \<in> String ` set candidatePaths)"

section \<open>Examples\<close>

text \<open>
  The collaborators of the examples. The parser of the examples takes the items between
  the separators and drops the empty ones; the sorting function is insertion sort.
\<close>

fun splitItems :: "string \<Rightarrow> string \<Rightarrow> string list" where
  "splitItems item [] = (if item = [] then [] else [item])"
| "splitItems item (c # cs) =
     (if c = CHR ''/'' then (if item = [] then splitItems [] cs else item # splitItems [] cs)
      else splitItems (item @ [c]) cs)"

definition exampleParse :: parser where
  "exampleParse s = Inr (Path (splitItems [] s))"

fun insertBy :: "('a \<Rightarrow> 'a \<Rightarrow> bool) \<Rightarrow> 'a \<Rightarrow> 'a list \<Rightarrow> 'a list" where
  "insertBy lt x [] = [x]"
| "insertBy lt x (y # ys) = (if lt x y then x # y # ys else y # insertBy lt x ys)"

definition sortBy :: "('a \<Rightarrow> 'a \<Rightarrow> bool) \<Rightarrow> 'a list \<Rightarrow> 'a list" where
  "sortBy lt xs = foldr (insertBy lt) xs []"

definition exampleRules :: "RawMetadataFilesPlaceItem list" where
  "exampleRules =
     [\<lparr>Src = ''readme.md'', Dest = ''doc/readme.md''\<rparr>,
      \<lparr>Src = ''assets/*'', Dest = ''out''\<rparr>,
      \<lparr>Src = ''docs/*'', Dest = ''out''\<rparr>]"

definition exampleMetadata :: "string \<Rightarrow> string \<Rightarrow> Metadata" where
  "exampleMetadata tooth url =
     Metadata \<lparr>Tooth = tooth, Asset_url = url, Files = \<lparr>Place = exampleRules\<rparr>\<rparr>"

definition exampleResolved :: "string \<Rightarrow> string \<Rightarrow> Metadata" where
  "exampleResolved tooth url =
     Metadata \<lparr>Tooth = tooth, Asset_url = url, Files = \<lparr>Place =
       [\<lparr>Src = ''readme.md'', Dest = ''doc/readme.md''\<rparr>,
        \<lparr>Src = ''assets/a.png'', Dest = ''out/a.png''\<rparr>,
        \<lparr>Src = ''assets/sub/b.png'', Dest = ''out/sub/b.png''\<rparr>]\<rparr>\<rparr>"

definition exampleCandidates :: "Path list" where
  "exampleCandidates =
     [Path [''assets'', ''a.png''], Path [''assets'', ''sub'', ''b.png''],
      Path [''other'', ''c.png'']]"

definition exampleEntry :: "string \<Rightarrow> string \<Rightarrow> zip_File" where
  "exampleEntry name content = \<lparr>Name = name, Open = Inr (Inr content)\<rparr>"

definition exampleZip :: "string \<Rightarrow> ReadCloser" where
  "exampleZip manifest =
     \<lparr>File =
        [exampleEntry ''pkgs/A/tooth.json'' manifest,
         exampleEntry ''pkgs/A/assets/a.png'' ''a'',
         exampleEntry ''pkgs/A/assets/sub/b.png'' ''b'',
         exampleEntry ''pkgs/A/other/c.png'' ''c'']\<rparr>"

definition exampleVersion ::
  "64 word \<Rightarrow> 64 word \<Rightarrow> 64 word \<Rightarrow> PRVersion list \<Rightarrow> Version" where
  "exampleVersion major minor patch pre =
     \<lparr>Major = major, Minor = minor, Patch = patch, Pre = pre, Build = []\<rparr>"

definition exampleRC1 :: PRVersion where
  "exampleRC1 = \<lparr>VersionStr = ''rc1'', VersionNum = 0, IsNum = False\<rparr>"

definition exampleContent :: string where
  "exampleContent =
     ''v1.2.3'' @ [CHR 0x0A] @ ''2.0.0+incompatible'' @ [CHR 0x0A] @
     ''not-a-version'' @ [CHR 0x0A] @ ''v1.3.0-rc1'' @ [CHR 0x0A]"

text \<open>A content whose first line is longer than the buffer of the scanner.\<close>

definition exampleLongContent :: string where
  "exampleLongContent = replicate 100000 (CHR ''a'') @ CHR 0x0A # ''v1.2.3''"

definition exampleContext :: Context where
  "exampleContext =
     \<lparr>MetadataDir = Inr (Path [''store'']), GoModuleProxyURL = Inr ''https://proxy.example''\<rparr>"

definition exampleBrokenContext :: Context where
  "exampleBrokenContext =
     \<lparr>MetadataDir = Inr (Path [''broken'']), GoModuleProxyURL = Inr ''https://proxy.example''\<rparr>"

definition exampleDeps :: deps where
  "exampleDeps =
     \<lparr>path_Parse = exampleParse,
      gozip_OpenReader = (\<lambda>p.
        if p = Path [''self.zip''] then Inr (exampleZip ''self'')
        else if p = Path [''ext.zip''] then Inr (exampleZip ''ext'')
        else if p = Path [''one.zip''] then Inr \<lparr>File = [exampleEntry ''tooth.json'' ''self'']\<rparr>
        else Inl (Errorf ''no such file'')),
      zip_GetFilePaths = (\<lambda>r. Inr (map (\<lambda>file. Path (splitItems [] (Name file))) (File r))),
      MakeMetadata = (\<lambda>bytes.
        if bytes = ''self'' then Inr (exampleMetadata ''example.com/org/pkg'' [])
        else if bytes = ''ext'' then
          Inr (exampleMetadata ''example.com/org/pkg'' ''https://example.com/assets.zip'')
        else if bytes = ''zeta'' then Inr (exampleMetadata ''example.com/Zeta/z'' [])
        else if bytes = ''alpha'' then Inr (exampleMetadata ''example.com/alpha/a'' [])
        else Inl (Errorf ''invalid manifest'')),
      filepath_Glob = (\<lambda>dir.
        if dir = Path [''store''] then Inr [''store/1.json'', ''store/2.json'']
        else if dir = Path [''broken''] then Inr [''broken/1.json'', ''broken/2.json'']
        else Inr []),
      os_ReadFile = (\<lambda>name.
        if name = ''store/1.json'' then Inr ''zeta''
        else if name = ''store/2.json'' then Inr ''alpha''
        else if name = ''broken/1.json'' then Inr ''alpha''
        else if name = ''broken/2.json'' then Inr ''{''
        else Inl (Errorf ''no such file'')),
      strings_ToLower = (\<lambda>s.
        if s = ''example.com/Zeta/z'' then ''example.com/zeta/z'' else s),
      sort_Slice = sortBy,
      module_CheckPath = (\<lambda>p. if p = [] then Some (Errorf ''empty path'') else None),
      network_GenerateGoModuleVersionListURL = (\<lambda>p url. Inr (url @ ''/'' @ p @ ''/@v/list'')),
      network_GetContent = (\<lambda>url.
        if url = ''https://proxy.example/example.com/org/pkg/@v/list'' then Inr exampleContent
        else if url = ''https://proxy.example/example.com/org/pre/@v/list'' then
          Inr ''v1.3.0-rc1''
        else if url = ''https://proxy.example/example.com/org/long/@v/list'' then
          Inr exampleLongContent
        else Inl (Errorf ''not found'')),
      semver_Parse = (\<lambda>s.
        if s = ''1.2.3'' then Inr (exampleVersion 1 2 3 [])
        else if s = ''2.0.0'' then Inr (exampleVersion 2 0 0 [])
        else if s = ''1.3.0-rc1'' then Inr (exampleVersion 1 3 0 [exampleRC1])
        else Inl (Errorf ''no version'')),
      semver_Sort = sortBy LT\<rparr>"

definition exampleFilePaths :: "Path list" where
  "exampleFilePaths =
     [Path [''pkgs'', ''A'', ''tooth.json''], Path [''pkgs'', ''A'', ''assets'', ''a.png''],
      Path [''pkgs'', ''A'', ''assets'', ''sub'', ''b.png''],
      Path [''pkgs'', ''A'', ''other'', ''c.png'']]"

definition exampleUnresolved :: Metadata where
  "exampleUnresolved =
     Metadata \<lparr>Tooth = ''example.com/org/pkg'', Asset_url = ''https://example.com/assets.zip'',
       Files = \<lparr>Place = [\<lparr>Src = ''readme.md'', Dest = ''doc/readme.md''\<rparr>]\<rparr>\<rparr>"



section \<open>Wildcard resolution: proofs\<close>

lemma placeFilePaths_eq:
  "placeFilePaths sp dp filePaths newPlace =
     newPlace @ map (concreteRule sp dp) (filter (\<lambda>c. HasPrefix c sp) filePaths)"
  by (induction filePaths arbitrary: newPlace) (simp_all add: concreteRule_def)


text \<open>
  A wildcard rule whose source prefix or destination does not parse makes the whole
  resolution fail: the error clause of section 4.2 of the specification.
\<close>

lemma placeItems_error:
  "rule \<in> set rules \<Longrightarrow> strings_HasSuffix (Src rule) ''*'' \<Longrightarrow>
   parse (strings_TrimSuffix (Src rule) ''*'') = Inl err \<or> parse (Dest rule) = Inl err \<Longrightarrow>
   \<exists>e. placeItems parse filePaths rules newPlace = Inl e"
proof (induction rules arbitrary: newPlace)
  case Nil
  then show ?case by simp
next
  case (Cons r rules)
  show ?case
  proof (cases "rule = r")
    case True
    with Cons.prems show ?thesis
      by (auto split: sum.splits)
  next
    case False
    with Cons.prems have "rule \<in> set rules" by simp
    from Cons.IH [OF this Cons.prems(2,3)] show ?thesis
      by (auto split: sum.splits)
  qed
qed

lemma populate_error:
  "rule \<in> set (Place (Files (Raw metadata))) \<Longrightarrow> strings_HasSuffix (Src rule) ''*'' \<Longrightarrow>
   parse (strings_TrimSuffix (Src rule) ''*'') = Inl err \<or> parse (Dest rule) = Inl err \<Longrightarrow>
   \<exists>e. populateMetadataFilePlaceWildcards parse metadata filePaths = Inl e"
  using placeItems_error [of rule "Place (Files (Raw metadata))" parse err filePaths "[]"]
  by (auto simp: populateMetadataFilePlaceWildcards_def Let_def)

lemma example_parses:
  "exampleParse ''assets/'' = Inr (Path [''assets''])"
  "exampleParse ''docs/'' = Inr (Path [''docs''])"
  "exampleParse ''out'' = Inr (Path [''out''])"
  "exampleParse ''tooth.json'' = Inr (Path [''tooth.json''])"
  by (simp_all add: exampleParse_def)

lemma example_suffixes:
  "strings_HasSuffix ''assets/*'' ''*''" "strings_HasSuffix ''docs/*'' ''*''"
  "\<not> strings_HasSuffix ''readme.md'' ''*''"
  "strings_TrimSuffix ''assets/*'' ''*'' = ''assets/''"
  "strings_TrimSuffix ''docs/*'' ''*'' = ''docs/''"
  by (simp_all add: strings_HasSuffix_def strings_TrimSuffix_def)

lemma example_resolution:
  "populateMetadataFilePlaceWildcards exampleParse (exampleMetadata tooth url) exampleCandidates =
     Inr (exampleResolved tooth url)"
  by (simp add: populateMetadataFilePlaceWildcards_def exampleMetadata_def exampleRules_def
      exampleCandidates_def exampleResolved_def example_parses example_suffixes
      HasPrefix_def TrimPrefix_def Join_def String_def)




section \<open>The invariant of the resolved rules\<close>

lemma placeItems_origin:
  "placeItems parse filePaths rules newPlace = Inr out \<Longrightarrow> rule \<in> set out \<Longrightarrow>
   rule \<in> set newPlace \<or>
   (rule \<in> set rules \<and> \<not> strings_HasSuffix (Src rule) ''*'') \<or>
   (\<exists>c\<in>set filePaths. Src rule = String c)"
proof (induction rules arbitrary: newPlace)
  case Nil
  then show ?case by simp
next
  case (Cons r rules)
  show ?case
  proof (cases "strings_HasSuffix (Src r) ''*''")
    case False
    with Cons.prems have "placeItems parse filePaths rules (newPlace @ [r]) = Inr out"
      by simp
    from Cons.IH [OF this Cons.prems(2)] False show ?thesis by auto
  next
    case True
    with Cons.prems obtain sp dp where
      "placeItems parse filePaths rules (placeFilePaths sp dp filePaths newPlace) = Inr out"
      by (auto split: sum.splits)
    from Cons.IH [OF this Cons.prems(2)] show ?thesis
      by (auto simp: placeFilePaths_eq concreteRule_def)
  qed
qed

text \<open>
  Claim C5, as stated, fails: a rule that does not end in the marker is copied whatever
  its source is, so the source \<open>readme.md\<close> stays although no candidate path has that name.
\<close>

theorem resolved_invariant_counterexample:
  "populateMetadataFilePlaceWildcards exampleParse (exampleMetadata ''t'' []) exampleCandidates =
     Inr (exampleResolved ''t'' []) \<and>
   \<not> resolvedInvariant exampleCandidates (exampleResolved ''t'' [])"
proof (rule conjI)
  show "populateMetadataFilePlaceWildcards exampleParse (exampleMetadata ''t'' [])
      exampleCandidates = Inr (exampleResolved ''t'' [])"
    by (rule example_resolution)
  show "\<not> resolvedInvariant exampleCandidates (exampleResolved ''t'' [])"
    by (simp add: resolvedInvariant_def exampleResolved_def exampleCandidates_def String_def)
qed

text \<open>
  Claim C5, amended. After wildcard resolution every rule either is a rule of the
  manifest whose source does not end in the marker, copied unchanged, or has as source
  the string of a candidate path; so where the string of no candidate path ends in the
  marker, no source of the result ends in the marker.
\<close>

theorem resolved_rules_origin:
  assumes "populateMetadataFilePlaceWildcards parse metadata candidatePaths = Inr resolved"
  shows "(\<forall>rule\<in>set (Place (Files (Raw resolved))).
            (rule \<in> set (Place (Files (Raw metadata))) \<and> \<not> strings_HasSuffix (Src rule) ''*'') \<or>
            (\<exists>c\<in>set candidatePaths. Src rule = String c)) \<and>
         ((\<forall>c\<in>set candidatePaths. \<not> strings_HasSuffix (String c) ''*'') \<longrightarrow>
          (\<forall>rule\<in>set (Place (Files (Raw resolved))). \<not> strings_HasSuffix (Src rule) ''*''))"
proof -
  from assms obtain out where
    out: "placeItems parse candidatePaths (Place (Files (Raw metadata))) [] = Inr out"
    and res: "Place (Files (Raw resolved)) = out"
    by (auto simp: populateMetadataFilePlaceWildcards_def Let_def split: sum.splits)
  have origin: "(rule \<in> set (Place (Files (Raw metadata))) \<and> \<not> strings_HasSuffix (Src rule) ''*'') \<or>
      (\<exists>c\<in>set candidatePaths. Src rule = String c)" if "rule \<in> set out" for rule
    using placeItems_origin [OF out that] by simp
  show ?thesis
    unfolding res using origin by metis
qed

theorem resolved_rules_origin_witness:
  "populateMetadataFilePlaceWildcards exampleParse (exampleMetadata ''t'' []) exampleCandidates =
     Inr (exampleResolved ''t'' []) \<and>
   list_all
     (\<lambda>rule. (rule \<in> set exampleRules \<and> \<not> strings_HasSuffix (Src rule) ''*'') \<or>
        (\<exists>c\<in>set exampleCandidates. Src rule = String c))
     (Place (Files (Raw (exampleResolved ''t'' []))))"
  using example_resolution [of "''t''" "[]"]
    resolved_rules_origin [OF example_resolution [of "''t''" "[]"]]
  by (simp add: list_all_iff exampleMetadata_def)

section \<open>MakeArchive: proofs\<close>











text \<open>
  The root that \<^verbatim>\<open>MakeArchive\<close> goes on with is the one inferred from the entry paths,
  and the manifest it reads is the first entry named \<open>tooth.json\<close> under that root.
\<close>

lemma loadArchive_root:
  "loadArchive d archiveFilePath = Inr (filePaths, filePathRoot, metadata) \<Longrightarrow>
   filePathRootOf filePaths = Inr filePathRoot"
  by (auto simp: loadArchive_def split: sum.splits)

lemma findToothJSON_found:
  "findToothJSON parse r filePathRoot = Inr toothJSONFile \<Longrightarrow>
   \<exists>toothJSON. parse ''tooth.json'' = Inr toothJSON \<and>
     find (\<lambda>file. Name file = String (Join filePathRoot toothJSON)) (File r) =
       Some toothJSONFile"
  by (auto simp: findToothJSON_def MustParse_def Let_def split: sum.splits option.splits)

lemma example_GetFilePaths:
  "zip_GetFilePaths exampleDeps (exampleZip manifest) = Inr exampleFilePaths"
  by (simp add: exampleDeps_def exampleZip_def exampleEntry_def exampleFilePaths_def)

lemma example_root: "filePathRootOf exampleFilePaths = Inr (Path [''pkgs'', ''A''])"
  by (simp add: filePathRootOf_def exampleFilePaths_def)

lemma example_findToothJSON:
  "findToothJSON exampleParse (exampleZip manifest) (Path [''pkgs'', ''A'']) =
     Inr (exampleEntry ''pkgs/A/tooth.json'' manifest)"
  by (simp add: findToothJSON_def MustParse_def example_parses Join_def String_def
      exampleZip_def exampleEntry_def)

lemma example_load_self:
  "loadArchive exampleDeps (Path [''self.zip'']) =
     Inr (exampleFilePaths, Path [''pkgs'', ''A''], exampleMetadata ''example.com/org/pkg'' [])"
proof -
  have "gozip_OpenReader exampleDeps (Path [''self.zip'']) = Inr (exampleZip ''self'')"
    by (simp add: exampleDeps_def)
  moreover have "path_Parse exampleDeps = exampleParse"
    by (simp add: exampleDeps_def)
  moreover have "readToothJSON exampleDeps (exampleEntry ''pkgs/A/tooth.json'' ''self'') =
      Inr (exampleMetadata ''example.com/org/pkg'' [])"
    by (simp add: readToothJSON_def exampleEntry_def exampleDeps_def)
  ultimately show ?thesis
    by (simp add: loadArchive_def example_GetFilePaths example_root example_findToothJSON)
qed

lemma example_load_ext:
  "loadArchive exampleDeps (Path [''ext.zip'']) =
     Inr (exampleFilePaths, Path [''pkgs'', ''A''],
          exampleMetadata ''example.com/org/pkg'' ''https://example.com/assets.zip'')"
proof -
  have "gozip_OpenReader exampleDeps (Path [''ext.zip'']) = Inr (exampleZip ''ext'')"
    by (simp add: exampleDeps_def)
  moreover have "path_Parse exampleDeps = exampleParse"
    by (simp add: exampleDeps_def)
  moreover have "readToothJSON exampleDeps (exampleEntry ''pkgs/A/tooth.json'' ''ext'') =
      Inr (exampleMetadata ''example.com/org/pkg'' ''https://example.com/assets.zip'')"
    by (simp add: readToothJSON_def exampleEntry_def exampleDeps_def)
  ultimately show ?thesis
    by (simp add: loadArchive_def example_GetFilePaths example_root example_findToothJSON)
qed

text \<open>
  Claim C3. Once the manifest is loaded, \<^verbatim>\<open>MakeArchive\<close> fails with the configuration
  mismatch if and only if exactly one of the asset URL of the manifest and the external
  asset archive path is non-empty.
\<close>

theorem config_mismatch:
  assumes "loadArchive d archiveFilePath = Inr (filePaths, filePathRoot, metadata)"
  shows "MakeArchive d archiveFilePath assetArchiveFilePath = Inl ConfigMismatch \<longleftrightarrow>
     (AssetURL metadata \<noteq> []) \<noteq> (\<not> IsEmpty assetArchiveFilePath)"
  using assms
  by (auto simp: MakeArchive_def resolveArchive_def ConfigMismatch_def Let_def
      split: sum.splits)

theorem config_mismatch_witness:
  "MakeArchive exampleDeps (Path [''self.zip'']) (Path [''assets.zip'']) = Inl ConfigMismatch \<and>
   MakeArchive exampleDeps (Path [''ext.zip'']) MakeEmpty = Inl ConfigMismatch \<and>
   MakeArchive exampleDeps (Path [''self.zip'']) MakeEmpty \<noteq> Inl ConfigMismatch \<and>
   MakeArchive exampleDeps (Path [''ext.zip'']) (Path [''assets.zip'']) \<noteq> Inl ConfigMismatch"
  using config_mismatch [OF example_load_self, of "Path [''assets.zip'']"]
    config_mismatch [OF example_load_self, of MakeEmpty]
    config_mismatch [OF example_load_ext, of "Path [''assets.zip'']"]
    config_mismatch [OF example_load_ext, of MakeEmpty]
  by (simp add: AssetURL_def exampleMetadata_def IsEmpty_def MakeEmpty_def)

lemma example_make_self:
  "MakeArchive exampleDeps (Path [''self.zip'']) MakeEmpty =
     Inr \<lparr>ar_metadata = exampleResolved ''example.com/org/pkg'' [],
          ar_assetArchiveFilePath = Path [''self.zip''],
          ar_assetArchiveFilePathRoot = Path [''pkgs'', ''A'']\<rparr>"
proof -
  have "map (\<lambda>filePath. TrimPrefix filePath (Path [''pkgs'', ''A''])) exampleFilePaths =
      Path [''tooth.json''] # exampleCandidates"
    by (simp add: exampleFilePaths_def exampleCandidates_def TrimPrefix_def HasPrefix_def)
  moreover have "populateMetadataFilePlaceWildcards exampleParse
      (exampleMetadata ''example.com/org/pkg'' []) (Path [''tooth.json''] # exampleCandidates) =
      Inr (exampleResolved ''example.com/org/pkg'' [])"
    by (simp add: populateMetadataFilePlaceWildcards_def exampleMetadata_def exampleRules_def
        exampleCandidates_def exampleResolved_def example_parses example_suffixes
        HasPrefix_def TrimPrefix_def Join_def String_def)
  moreover have "path_Parse exampleDeps = exampleParse"
    by (simp add: exampleDeps_def)
  ultimately show ?thesis
    by (simp add: MakeArchive_def example_load_self resolveArchive_def AssetURL_def
        exampleMetadata_def IsEmpty_def MakeEmpty_def)
qed

lemma example_make_ext:
  "MakeArchive exampleDeps (Path [''ext.zip'']) (Path [''assets.zip'']) =
     Inr \<lparr>ar_metadata = exampleUnresolved,
          ar_assetArchiveFilePath = Path [''assets.zip''],
          ar_assetArchiveFilePathRoot = MakeEmpty\<rparr>"
proof -
  have "populateMetadataFilePlaceWildcards exampleParse
      (exampleMetadata ''example.com/org/pkg'' ''https://example.com/assets.zip'')
      exampleFilePaths = Inr exampleUnresolved"
    by (simp add: populateMetadataFilePlaceWildcards_def exampleMetadata_def exampleRules_def
        exampleFilePaths_def exampleUnresolved_def example_parses example_suffixes
        HasPrefix_def TrimPrefix_def Join_def String_def)
  moreover have "path_Parse exampleDeps = exampleParse"
    by (simp add: exampleDeps_def)
  ultimately show ?thesis
    by (simp add: MakeArchive_def example_load_ext resolveArchive_def AssetURL_def
        exampleMetadata_def IsEmpty_def)
qed

text \<open>
  Claim C4. On success the two branches differ. With an empty external asset archive path
  the wildcards are resolved against the entry paths with the root stripped from each, and
  the archive has the path of the archive itself and the root as its asset archive path
  and root. With a non-empty external path the wildcards are resolved against the entry
  paths of this archive as they are, and the archive has the external path and the empty
  root.
\<close>

theorem branch_asymmetry:
  assumes "loadArchive d archiveFilePath = Inr (filePaths, filePathRoot, metadata)"
    and "MakeArchive d archiveFilePath assetArchiveFilePath = Inr ar"
  shows "(IsEmpty assetArchiveFilePath \<longrightarrow>
            populateMetadataFilePlaceWildcards (path_Parse d) metadata
              (map (\<lambda>filePath. TrimPrefix filePath filePathRoot) filePaths) =
              Inr (ar_metadata ar) \<and>
            ar_assetArchiveFilePath ar = archiveFilePath \<and>
            ar_assetArchiveFilePathRoot ar = filePathRoot) \<and>
         (\<not> IsEmpty assetArchiveFilePath \<longrightarrow>
            populateMetadataFilePlaceWildcards (path_Parse d) metadata filePaths =
              Inr (ar_metadata ar) \<and>
            ar_assetArchiveFilePath ar = assetArchiveFilePath \<and>
            ar_assetArchiveFilePathRoot ar = MakeEmpty)"
  using assms
  by (auto simp: MakeArchive_def resolveArchive_def Let_def split: sum.splits if_splits)

theorem branch_asymmetry_witness:
  "MakeArchive exampleDeps (Path [''self.zip'']) MakeEmpty =
     Inr \<lparr>ar_metadata = exampleResolved ''example.com/org/pkg'' [],
          ar_assetArchiveFilePath = Path [''self.zip''],
          ar_assetArchiveFilePathRoot = Path [''pkgs'', ''A'']\<rparr> \<and>
   populateMetadataFilePlaceWildcards (path_Parse exampleDeps)
     (exampleMetadata ''example.com/org/pkg'' [])
     (map (\<lambda>filePath. TrimPrefix filePath (Path [''pkgs'', ''A''])) exampleFilePaths) =
     Inr (exampleResolved ''example.com/org/pkg'' []) \<and>
   MakeArchive exampleDeps (Path [''ext.zip'']) (Path [''assets.zip'']) =
     Inr \<lparr>ar_metadata = exampleUnresolved,
          ar_assetArchiveFilePath = Path [''assets.zip''],
          ar_assetArchiveFilePathRoot = MakeEmpty\<rparr> \<and>
   populateMetadataFilePlaceWildcards (path_Parse exampleDeps)
     (exampleMetadata ''example.com/org/pkg'' ''https://example.com/assets.zip'')
     exampleFilePaths = Inr exampleUnresolved"
  using branch_asymmetry [OF example_load_self example_make_self]
    branch_asymmetry [OF example_load_ext example_make_ext]
    example_make_self example_make_ext
  by (simp add: IsEmpty_def MakeEmpty_def)

section \<open>Versions: proofs\<close>

lemma reverseLoop_nth:
  "0 \<le> i \<Longrightarrow> j < int (length xs) \<Longrightarrow>
   length (reverseLoop i j xs) = length xs \<and>
   (\<forall>k<length xs. reverseLoop i j xs ! k =
      (if i \<le> int k \<and> int k \<le> j then xs ! nat (i + j - int k) else xs ! k))"
proof (induction i j xs rule: reverseLoop.induct)
  case (1 i j xs)
  show ?case
  proof (cases "i < j")
    case False
    have "xs ! nat (i + j - int k) = xs ! k" if "i \<le> int k" "int k \<le> j" for k
    proof -
      from that False have "i + j - int k = int k" by simp
      then show ?thesis by simp
    qed
    with False show ?thesis
      by (subst (1 2) reverseLoop.simps) simp
  next
    case True
    let ?ys = "xs[nat i := xs ! nat j, nat j := xs ! nat i]"
    have len: "length ?ys = length xs" by simp
    have pre: "0 \<le> i + 1" "j - 1 < int (length ?ys)"
      using "1.prems" by simp_all
    note IH = "1.IH" [OF True pre]
    have unfold: "reverseLoop i j xs = reverseLoop (i + 1) (j - 1) ?ys"
      using True by (subst reverseLoop.simps) simp
    have "reverseLoop (i + 1) (j - 1) ?ys ! k =
        (if i \<le> int k \<and> int k \<le> j then xs ! nat (i + j - int k) else xs ! k)"
      if k: "k < length xs" for k
    proof -
      from IH k len have eq: "reverseLoop (i + 1) (j - 1) ?ys ! k =
          (if i + 1 \<le> int k \<and> int k \<le> j - 1 then ?ys ! nat (i + 1 + (j - 1) - int k)
           else ?ys ! k)"
        by simp
      have ni: "nat i < length xs" and nj: "nat j < length xs" and nij: "nat i \<noteq> nat j"
        using "1.prems" True by auto
      consider "int k = i" | "int k = j" | "i < int k" "int k < j" | "int k < i" | "j < int k"
        by linarith
      then show ?thesis
      proof cases
        case 1
        then have "k = nat i" by simp
        with eq 1 True ni nj nij show ?thesis
          by (simp add: nth_list_update)
      next
        case 2
        then have "k = nat j" by simp
        with eq 2 True ni nj nij show ?thesis
          by (simp add: nth_list_update)
      next
        case 3
        then have "nat (i + j - int k) \<noteq> nat i" "nat (i + j - int k) \<noteq> nat j"
          using "1.prems" by auto
        with eq 3 show ?thesis
          by (simp add: nth_list_update)
      next
        case 4
        then have "k \<noteq> nat i" "k \<noteq> nat j" using True by auto
        with eq 4 show ?thesis by (simp add: nth_list_update)
      next
        case 5
        then have "k \<noteq> nat i" "k \<noteq> nat j" using True "1.prems" by auto
        with eq 5 show ?thesis by (simp add: nth_list_update)
      qed
    qed
    with IH len unfold show ?thesis by simp
  qed
qed

text \<open>The loop of lines 138 to 140 reverses the list.\<close>

lemma reverseLoop_rev: "reverseLoop 0 (int (length xs) - 1) xs = rev xs"
proof (rule nth_equalityI)
  have *: "length (reverseLoop 0 (int (length xs) - 1) xs) = length xs \<and>
     (\<forall>k<length xs. reverseLoop 0 (int (length xs) - 1) xs ! k =
        (if 0 \<le> int k \<and> int k \<le> int (length xs) - 1
         then xs ! nat (0 + (int (length xs) - 1) - int k) else xs ! k))"
    by (rule reverseLoop_nth) simp_all
  then show "length (reverseLoop 0 (int (length xs) - 1) xs) = length (rev xs)"
    by simp
  fix k
  assume "k < length (reverseLoop 0 (int (length xs) - 1) xs)"
  with * have k: "k < length xs" by simp
  then have "nat (0 + (int (length xs) - 1) - int k) = length xs - Suc k"
    by linarith
  with * k show "reverseLoop 0 (int (length xs) - 1) xs ! k = rev xs ! k"
    by (simp add: rev_nth)
qed

lemma parseLines_eq:
  "parseLines d lines versionList = versionList @ List.map_filter (parsedVersion d) lines"
  by (induction lines arbitrary: versionList)
    (simp_all add: List.map_filter_simps parsedVersion_def split: sum.splits)

lemma versionsOfContent_eq:
  "versionsOfContent d content =
     rev (semver_Sort d (List.map_filter (parsedVersion d) (scanLines content)))"
  by (simp add: versionsOfContent_def Let_def reverseLoop_rev parseLines_eq)

lemma versions_descending:
  assumes "sorts LT (List.map_filter (parsedVersion d) (scanLines content))
     (semver_Sort d (List.map_filter (parsedVersion d) (scanLines content)))"
  shows "mset (versionsOfContent d content) =
       mset (List.map_filter (parsedVersion d) (scanLines content)) \<and>
     sorted_wrt (\<lambda>a b. \<not> LT a b) (versionsOfContent d content)"
  using assms
  by (simp add: versionsOfContent_eq sorts_def sortedBy_def sorted_wrt_rev)

lemma firstLine_append: "CHR 0x0A \<notin> set line \<Longrightarrow> firstLine (line @ CHR 0x0A # rest) = line"
  by (auto simp: firstLine_def takeWhile_tail)


lemma scanLines_Nil: "scanLines [] = []"
  by (subst scanLines.simps) simp

lemma scanLines_line:
  "CHR 0x0A \<notin> set line \<Longrightarrow> length line < MaxScanTokenSize \<Longrightarrow>
   scanLines (line @ CHR 0x0A # rest) = dropCR line # scanLines rest"
  by (subst scanLines.simps) (simp add: firstLine_append)

lemma scanLines_too_long:
  "CHR 0x0A \<notin> set line \<Longrightarrow> MaxScanTokenSize \<le> length line \<Longrightarrow>
   scanLines (line @ CHR 0x0A # rest) = []"
  by (subst scanLines.simps) (simp add: firstLine_append)

lemma firstLine_last: "CHR 0x0A \<notin> set line \<Longrightarrow> firstLine line = line"
  by (auto simp: firstLine_def)

lemma scanLines_last:
  "CHR 0x0A \<notin> set line \<Longrightarrow> line \<noteq> [] \<Longrightarrow> length line < MaxScanTokenSize \<Longrightarrow>
   scanLines line = [dropCR line]"
  by (subst scanLines.simps) (simp add: firstLine_last scanLines_Nil)

lemma rawLines_Nil: "rawLines [] = []"
  by (subst rawLines.simps) simp

lemma rawLines_line:
  "CHR 0x0A \<notin> set line \<Longrightarrow> rawLines (line @ CHR 0x0A # rest) = line # rawLines rest"
  by (subst rawLines.simps) (simp add: firstLine_append)

lemma rawLines_last: "CHR 0x0A \<notin> set line \<Longrightarrow> line \<noteq> [] \<Longrightarrow> rawLines line = [line]"
  by (subst rawLines.simps) (simp add: firstLine_last rawLines_Nil)

lemma scanLines_allLines:
  "\<forall>line\<in>set (rawLines data). length line < MaxScanTokenSize \<Longrightarrow>
   scanLines data = allLines data"
proof (induction data rule: rawLines.induct)
  case (1 data)
  show ?case
  proof (cases "data = []")
    case True
    then show ?thesis by (simp add: scanLines_Nil allLines_def rawLines_Nil)
  next
    case False
    then have raw: "rawLines data =
        firstLine data # rawLines (drop (length (firstLine data) + 1) data)"
      by (subst rawLines.simps) simp
    with "1.prems" have short: "length (firstLine data) < MaxScanTokenSize"
      and rest: "\<forall>line\<in>set (rawLines (drop (length (firstLine data) + 1) data)).
        length line < MaxScanTokenSize"
      by simp_all
    from "1.IH" [OF False rest] False short raw show ?thesis
      by (subst scanLines.simps) (simp add: allLines_def)
  qed
qed

lemma example_scanLines:
  "scanLines exampleContent = [''v1.2.3'', ''2.0.0+incompatible'', ''not-a-version'', ''v1.3.0-rc1'']"
  by (simp add: exampleContent_def scanLines.simps firstLine_def MaxScanTokenSize_def dropCR_def)

lemma example_long_scanLines: "scanLines exampleLongContent = []"
  unfolding exampleLongContent_def
  by (rule scanLines_too_long) (simp_all add: MaxScanTokenSize_def)

lemma example_long_allLines:
  "allLines exampleLongContent = [replicate 100000 (CHR ''a''), ''v1.2.3'']"
proof -
  have "rawLines exampleLongContent = replicate 100000 (CHR ''a'') # rawLines ''v1.2.3''"
    unfolding exampleLongContent_def by (rule rawLines_line) simp
  then show ?thesis
    by (simp add: allLines_def rawLines_last dropCR_def)
qed

lemma example_versions:
  "versionsOfContent exampleDeps exampleContent =
     [exampleVersion 2 0 0 [], exampleVersion 1 3 0 [exampleRC1], exampleVersion 1 2 3 []]"
proof -
  have parse: "semver_Parse exampleDeps = (\<lambda>s.
        if s = ''1.2.3'' then Inr (exampleVersion 1 2 3 [])
        else if s = ''2.0.0'' then Inr (exampleVersion 2 0 0 [])
        else if s = ''1.3.0-rc1'' then Inr (exampleVersion 1 3 0 [exampleRC1])
        else Inl (Errorf ''no version''))"
    and sort: "semver_Sort exampleDeps = sortBy LT"
    by (simp_all add: exampleDeps_def)
  have "List.map_filter (parsedVersion exampleDeps) (scanLines exampleContent) =
      [exampleVersion 1 2 3 [], exampleVersion 2 0 0 [], exampleVersion 1 3 0 [exampleRC1]]"
    by (simp add: example_scanLines List.map_filter_simps parsedVersion_def parse
        versionString_def strings_TrimPrefix_def strings_TrimSuffix_def strings_HasPrefix_def
        strings_HasSuffix_def)
  then show ?thesis
    by (simp add: versionsOfContent_eq sort sortBy_def LT_def Compare_def exampleVersion_def)
qed


text \<open>
  Where every line of the content fits the buffer of the scanner, and the sorting function
  keeps its contract, the versions returned are those that the lines of the content parse
  to, no version before one of higher precedence.
\<close>

lemma versions_of_short_lines:
  assumes "\<forall>line\<in>set (rawLines content). length line < MaxScanTokenSize"
    and "sorts LT (List.map_filter (parsedVersion d) (allLines content))
     (semver_Sort d (List.map_filter (parsedVersion d) (allLines content)))"
  shows "mset (versionsOfContent d content) =
       mset (List.map_filter (parsedVersion d) (allLines content)) \<and>
     sorted_wrt (\<lambda>a b. \<not> LT a b) (versionsOfContent d content)"
  using versions_descending [of d content] assms
  by (simp add: scanLines_allLines)

lemma example_deps:
  "semver_Parse exampleDeps = (\<lambda>s.
        if s = ''1.2.3'' then Inr (exampleVersion 1 2 3 [])
        else if s = ''2.0.0'' then Inr (exampleVersion 2 0 0 [])
        else if s = ''1.3.0-rc1'' then Inr (exampleVersion 1 3 0 [exampleRC1])
        else Inl (Errorf ''no version''))"
  "semver_Sort exampleDeps = sortBy LT"
  "module_CheckPath exampleDeps = (\<lambda>p. if p = [] then Some (Errorf ''empty path'') else None)"
  "network_GenerateGoModuleVersionListURL exampleDeps = (\<lambda>p url. Inr (url @ ''/'' @ p @ ''/@v/list''))"
  by (simp_all add: exampleDeps_def)

lemma example_GetContent:
  "network_GetContent exampleDeps ''https://proxy.example/example.com/org/pkg/@v/list'' =
     Inr exampleContent"
  "network_GetContent exampleDeps ''https://proxy.example/example.com/org/pre/@v/list'' =
     Inr ''v1.3.0-rc1''"
  "network_GetContent exampleDeps ''https://proxy.example/example.com/org/long/@v/list'' =
     Inr exampleLongContent"
  by (simp_all add: exampleDeps_def)

lemma example_GetAvailableVersions:
  "GetAvailableVersions exampleDeps exampleContext ''example.com/org/pkg'' =
     Inr (versionsOfContent exampleDeps exampleContent)"
  "GetAvailableVersions exampleDeps exampleContext ''example.com/org/pre'' =
     Inr (versionsOfContent exampleDeps ''v1.3.0-rc1'')"
  "GetAvailableVersions exampleDeps exampleContext ''example.com/org/long'' =
     Inr (versionsOfContent exampleDeps exampleLongContent)"
  using example_GetContent
  by (simp_all add: GetAvailableVersions_def example_deps(3,4) exampleContext_def)

text \<open>
  Claim C6 at a content whose first line does not fit the buffer of the scanner: the
  second line \<open>v1.2.3\<close> is a line of the content and parses to a version, and
  \<^verbatim>\<open>GetAvailableVersions\<close> returns the empty list without an error. The scanner stops at
  the long line, and its error is never read.
\<close>

theorem long_line_stops_scanner:
  "GetAvailableVersions exampleDeps exampleContext ''example.com/org/long'' = Inr [] \<and>
   allLines exampleLongContent = [replicate 100000 (CHR ''a''), ''v1.2.3''] \<and>
   parsedVersion exampleDeps ''v1.2.3'' = Some (exampleVersion 1 2 3 [])"
proof (intro conjI)
  show "GetAvailableVersions exampleDeps exampleContext ''example.com/org/long'' = Inr []"
    by (simp add: example_GetAvailableVersions versionsOfContent_eq example_long_scanLines
        List.map_filter_simps example_deps(2) sortBy_def)
  show "allLines exampleLongContent = [replicate 100000 (CHR ''a''), ''v1.2.3'']"
    by (rule example_long_allLines)
  show "parsedVersion exampleDeps ''v1.2.3'' = Some (exampleVersion 1 2 3 [])"
    by (simp add: parsedVersion_def example_deps(1) versionString_def strings_TrimPrefix_def
        strings_TrimSuffix_def strings_HasPrefix_def strings_HasSuffix_def)
qed

lemma firstStable_find:
  "firstStable versionList =
     (case find (\<lambda>version. Pre version = []) versionList of
        None \<Rightarrow> Inl NoStableVersion
      | Some version \<Rightarrow> Inr version)"
  by (induction versionList) simp_all

lemma find_SomeD: "find P xs = Some x \<Longrightarrow> x \<in> set xs \<and> P x"
  by (induction xs) (auto split: if_splits)

text \<open>
  Claim C7. \<^verbatim>\<open>GetLatestStableVersion\<close> returns the first version of the list of
  \<^verbatim>\<open>GetAvailableVersions\<close> whose pre-release part is empty, and fails with the error of
  no stable version exactly when the list has no such version, the empty list included.
\<close>

theorem latest_stable:
  "GetLatestStableVersion d ctx toothRepoPath =
     (case GetAvailableVersions d ctx toothRepoPath of
        Inl err \<Rightarrow> Inl (Wrapf ''failed to get available version list'' err)
      | Inr versionList \<Rightarrow>
          (case find (\<lambda>version. Pre version = []) versionList of
             None \<Rightarrow> Inl NoStableVersion
           | Some version \<Rightarrow> Inr version)) \<and>
   (GetLatestStableVersion d ctx toothRepoPath = Inl NoStableVersion \<longleftrightarrow>
      (\<exists>versionList. GetAvailableVersions d ctx toothRepoPath = Inr versionList \<and>
         (\<forall>version\<in>set versionList. Pre version \<noteq> [])))"
proof (cases "GetAvailableVersions d ctx toothRepoPath")
  case (Inl err)
  then show ?thesis
    by (simp add: GetLatestStableVersion_def NoStableVersion_def)
next
  case (Inr versionList)
  show ?thesis
  proof (cases "find (\<lambda>version. Pre version = []) versionList")
    case None
    then have "\<forall>version\<in>set versionList. Pre version \<noteq> []"
      by (simp add: find_None_iff)
    with Inr None show ?thesis
      by (simp add: GetLatestStableVersion_def firstStable_find)
  next
    case (Some version)
    from find_SomeD [OF this] have "\<not> (\<forall>version\<in>set versionList. Pre version \<noteq> [])"
      by auto
    with Inr Some show ?thesis
      by (simp add: GetLatestStableVersion_def firstStable_find)
  qed
qed

lemma example_pre_versions:
  "versionsOfContent exampleDeps ''v1.3.0-rc1'' = [exampleVersion 1 3 0 [exampleRC1]]"
proof -
  have "scanLines ''v1.3.0-rc1'' = [''v1.3.0-rc1'']"
    by (simp add: scanLines.simps firstLine_def MaxScanTokenSize_def dropCR_def)
  then show ?thesis
    by (simp add: versionsOfContent_eq List.map_filter_simps parsedVersion_def example_deps(1,2)
        versionString_def strings_TrimPrefix_def strings_TrimSuffix_def strings_HasPrefix_def
        strings_HasSuffix_def sortBy_def)
qed

theorem latest_stable_witness:
  "GetLatestStableVersion exampleDeps exampleContext ''example.com/org/pkg'' =
     Inr (exampleVersion 2 0 0 []) \<and>
   GetLatestStableVersion exampleDeps exampleContext ''example.com/org/pre'' =
     Inl NoStableVersion"
  using latest_stable [of exampleDeps exampleContext "''example.com/org/pkg''"]
    latest_stable [of exampleDeps exampleContext "''example.com/org/pre''"]
  by (simp add: example_GetAvailableVersions(1,2) example_versions example_pre_versions
      exampleVersion_def exampleRC1_def)


section \<open>Installed metadata: proofs\<close>

lemma readMetadataFiles_Cons:
  "readMetadataFiles d (filePath # filePaths) metadataList =
     (case readMetadataFile d filePath of
        Inl err \<Rightarrow> Inl err
      | Inr metadata \<Rightarrow> readMetadataFiles d filePaths (metadataList @ [metadata]))"
  by (simp add: readMetadataFile_def split: sum.splits)

lemma readMetadataFiles_all:
  "\<forall>f\<in>set filePaths. \<exists>m. readMetadataFile d f = Inr m \<Longrightarrow>
   readMetadataFiles d filePaths metadataList =
     Inr (metadataList @ map (\<lambda>f. projr (readMetadataFile d f)) filePaths)"
proof (induction filePaths arbitrary: metadataList)
  case Nil
  show ?case by simp
next
  case (Cons f filePaths)
  from Cons.prems obtain m where m: "readMetadataFile d f = Inr m" by auto
  from Cons.prems have "\<forall>f\<in>set filePaths. \<exists>m. readMetadataFile d f = Inr m" by simp
  from Cons.IH [OF this] m show ?case
    by (simp add: readMetadataFiles_Cons del: readMetadataFiles.simps)
qed

lemma readMetadataFiles_first_failure:
  "\<forall>f\<in>set ok. \<exists>m. readMetadataFile d f = Inr m \<Longrightarrow> readMetadataFile d bad = Inl err \<Longrightarrow>
   readMetadataFiles d (ok @ bad # rest) metadataList = Inl err"
proof (induction ok arbitrary: metadataList)
  case Nil
  then show ?case by (simp add: readMetadataFiles_Cons del: readMetadataFiles.simps)
next
  case (Cons f ok)
  from Cons.prems obtain m where m: "readMetadataFile d f = Inr m" by auto
  from Cons.prems have "\<forall>f\<in>set ok. \<exists>m. readMetadataFile d f = Inr m" by simp
  from Cons.IH [OF this Cons.prems(2)] m show ?case
    by (simp add: readMetadataFiles_Cons del: readMetadataFiles.simps)
qed

lemma readMetadataFiles_any_failure:
  "f \<in> set filePaths \<Longrightarrow> readMetadataFile d f = Inl err \<Longrightarrow>
   \<exists>e. readMetadataFiles d filePaths metadataList = Inl e"
proof (induction filePaths arbitrary: metadataList)
  case Nil
  then show ?case by simp
next
  case (Cons g filePaths)
  show ?case
  proof (cases "readMetadataFile d g")
    case (Inl e)
    then show ?thesis by (simp add: readMetadataFiles_Cons del: readMetadataFiles.simps)
  next
    case (Inr m)
    with Cons.prems have "f \<in> set filePaths" by auto
    from Cons.IH [OF this Cons.prems(2)] Inr show ?thesis
      by (simp add: readMetadataFiles_Cons del: readMetadataFiles.simps)
  qed
qed

lemma sortedBy_lessRepoPath:
  "sortedBy (lessRepoPath d) ms \<longleftrightarrow>
     sorted (map (\<lambda>m. strings_ToLower d (ToothRepoPath m)) ms)"
  by (simp add: sortedBy_def lessRepoPath_def sorted_map not_less sorted_wrt_iff_nth_less)

text \<open>
  Claim C8. \<^verbatim>\<open>GetAllMetadata\<close> reads and parses every metadata file of the store. Where
  all succeed it returns what the sorting function makes of the parsed metadata, which
  (by the contract of the sorting function) is a rearrangement of them in ascending order
  of the lower-cased repository path; the first file that fails to read or to parse aborts
  the listing with its error, and nothing is returned.
\<close>

theorem GetAllMetadata_listing:
  assumes "MetadataDir ctx = Inr metadataDir"
    and "filepath_Glob d metadataDir = Inr filePaths"
  shows "((\<forall>f\<in>set filePaths. \<exists>m. readMetadataFile d f = Inr m) \<longrightarrow>
            GetAllMetadata d ctx =
              Inr (sort_Slice d (lessRepoPath d)
                     (map (\<lambda>f. projr (readMetadataFile d f)) filePaths))) \<and>
         ((\<forall>f\<in>set filePaths. \<exists>m. readMetadataFile d f = Inr m) \<and>
          sorts (lessRepoPath d) (map (\<lambda>f. projr (readMetadataFile d f)) filePaths)
            (sort_Slice d (lessRepoPath d)
               (map (\<lambda>f. projr (readMetadataFile d f)) filePaths)) \<longrightarrow>
            (\<exists>metadataList. GetAllMetadata d ctx = Inr metadataList \<and>
               mset metadataList =
                 mset (map (\<lambda>f. projr (readMetadataFile d f)) filePaths) \<and>
               sorted (map (\<lambda>m. strings_ToLower d (ToothRepoPath m)) metadataList))) \<and>
         (\<forall>ok bad rest err.
            filePaths = ok @ bad # rest \<and>
            (\<forall>f\<in>set ok. \<exists>m. readMetadataFile d f = Inr m) \<and>
            readMetadataFile d bad = Inl err \<longrightarrow>
            GetAllMetadata d ctx = Inl err)"
proof (intro conjI allI impI)
  assume "\<forall>f\<in>set filePaths. \<exists>m. readMetadataFile d f = Inr m"
  from readMetadataFiles_all [OF this, of "[]"] assms
  show "GetAllMetadata d ctx =
      Inr (sort_Slice d (lessRepoPath d) (map (\<lambda>f. projr (readMetadataFile d f)) filePaths))"
    by (simp add: GetAllMetadata_def)
next
  assume a: "(\<forall>f\<in>set filePaths. \<exists>m. readMetadataFile d f = Inr m) \<and>
          sorts (lessRepoPath d) (map (\<lambda>f. projr (readMetadataFile d f)) filePaths)
            (sort_Slice d (lessRepoPath d)
               (map (\<lambda>f. projr (readMetadataFile d f)) filePaths))"
  then have "\<forall>f\<in>set filePaths. \<exists>m. readMetadataFile d f = Inr m" by simp
  from readMetadataFiles_all [OF this, of "[]"] assms
  have "GetAllMetadata d ctx =
      Inr (sort_Slice d (lessRepoPath d) (map (\<lambda>f. projr (readMetadataFile d f)) filePaths))"
    by (simp add: GetAllMetadata_def)
  with a show "\<exists>metadataList. GetAllMetadata d ctx = Inr metadataList \<and>
      mset metadataList = mset (map (\<lambda>f. projr (readMetadataFile d f)) filePaths) \<and>
      sorted (map (\<lambda>m. strings_ToLower d (ToothRepoPath m)) metadataList)"
    by (simp add: sorts_def sortedBy_lessRepoPath)
next
  fix ok bad rest err
  assume "filePaths = ok @ bad # rest \<and>
      (\<forall>f\<in>set ok. \<exists>m. readMetadataFile d f = Inr m) \<and> readMetadataFile d bad = Inl err"
  then have f: "filePaths = ok @ bad # rest"
    and ok: "\<forall>f\<in>set ok. \<exists>m. readMetadataFile d f = Inr m"
    and bad: "readMetadataFile d bad = Inl err"
    by simp_all
  from readMetadataFiles_first_failure [OF ok bad, of rest "[]"] assms f
  show "GetAllMetadata d ctx = Inl err"
    by (simp add: GetAllMetadata_def)
qed

lemma anyRepoPath_iff:
  "anyRepoPath metadataList toothRepoPath \<longleftrightarrow>
     (\<exists>metadata\<in>set metadataList. ToothRepoPath metadata = toothRepoPath)"
  by (induction metadataList) auto

lemma firstRepoPath_find:
  "firstRepoPath metadataList toothRepoPath =
     (case find (\<lambda>metadata. ToothRepoPath metadata = toothRepoPath) metadataList of
        None \<Rightarrow> Inl (NotFound toothRepoPath)
      | Some metadata \<Rightarrow> Inr metadata)"
  by (induction metadataList) simp_all

text \<open>
  Claim C9. \<^verbatim>\<open>IsInstalled\<close> returns true if and only if some listed metadata has exactly
  the repository path asked for; \<^verbatim>\<open>GetMetadata\<close> returns the first such metadata, and
  fails with the error of a missing tooth when there is none.
\<close>

theorem installed_lookup:
  "IsInstalled d ctx toothRepoPath =
     (case GetAllMetadata d ctx of
        Inl err \<Rightarrow> Inl (Wrapf ''failed to list all installed tooth metadata'' err)
      | Inr metadataList \<Rightarrow>
          Inr (\<exists>metadata\<in>set metadataList. ToothRepoPath metadata = toothRepoPath)) \<and>
   GetMetadata d ctx toothRepoPath =
     (case GetAllMetadata d ctx of
        Inl err \<Rightarrow> Inl (Wrapf ''failed to list all installed tooth metadata'' err)
      | Inr metadataList \<Rightarrow>
          (case find (\<lambda>metadata. ToothRepoPath metadata = toothRepoPath) metadataList of
             None \<Rightarrow> Inl (NotFound toothRepoPath)
           | Some metadata \<Rightarrow> Inr metadata)) \<and>
   (\<forall>metadataList. GetAllMetadata d ctx = Inr metadataList \<longrightarrow>
      (\<forall>metadata. GetMetadata d ctx toothRepoPath = Inr metadata \<longrightarrow>
         metadata \<in> set metadataList \<and> ToothRepoPath metadata = toothRepoPath) \<and>
      (GetMetadata d ctx toothRepoPath = Inl (NotFound toothRepoPath) \<longleftrightarrow>
         \<not> (\<exists>metadata\<in>set metadataList. ToothRepoPath metadata = toothRepoPath)))"
proof (intro conjI allI impI)
  show "IsInstalled d ctx toothRepoPath =
     (case GetAllMetadata d ctx of
        Inl err \<Rightarrow> Inl (Wrapf ''failed to list all installed tooth metadata'' err)
      | Inr metadataList \<Rightarrow>
          Inr (\<exists>metadata\<in>set metadataList. ToothRepoPath metadata = toothRepoPath))"
    by (simp add: IsInstalled_def anyRepoPath_iff split: sum.splits)
  show "GetMetadata d ctx toothRepoPath =
     (case GetAllMetadata d ctx of
        Inl err \<Rightarrow> Inl (Wrapf ''failed to list all installed tooth metadata'' err)
      | Inr metadataList \<Rightarrow>
          (case find (\<lambda>metadata. ToothRepoPath metadata = toothRepoPath) metadataList of
             None \<Rightarrow> Inl (NotFound toothRepoPath)
           | Some metadata \<Rightarrow> Inr metadata))"
    by (simp add: GetMetadata_def firstRepoPath_find split: sum.splits)
next
  fix metadataList metadata
  assume "GetAllMetadata d ctx = Inr metadataList"
    and "GetMetadata d ctx toothRepoPath = Inr metadata"
  then have "find (\<lambda>metadata. ToothRepoPath metadata = toothRepoPath) metadataList = Some metadata"
    by (simp add: GetMetadata_def firstRepoPath_find split: option.splits)
  from find_SomeD [OF this]
  show "metadata \<in> set metadataList" and "ToothRepoPath metadata = toothRepoPath"
    by simp_all
next
  fix metadataList
  assume all: "GetAllMetadata d ctx = Inr metadataList"
  show "GetMetadata d ctx toothRepoPath = Inl (NotFound toothRepoPath) \<longleftrightarrow>
      \<not> (\<exists>metadata\<in>set metadataList. ToothRepoPath metadata = toothRepoPath)"
  proof (cases "find (\<lambda>metadata. ToothRepoPath metadata = toothRepoPath) metadataList")
    case None
    then have "\<not> (\<exists>metadata\<in>set metadataList. ToothRepoPath metadata = toothRepoPath)"
      by (simp add: find_None_iff)
    with all None show ?thesis
      by (simp add: GetMetadata_def firstRepoPath_find)
  next
    case (Some metadata)
    from find_SomeD [OF this]
    have "\<exists>metadata\<in>set metadataList. ToothRepoPath metadata = toothRepoPath"
      by auto
    with all Some show ?thesis
      by (simp add: GetMetadata_def firstRepoPath_find)
  qed
qed

text \<open>
  Claim C10. Where one metadata file of the store fails to read or to parse,
  \<^verbatim>\<open>IsInstalled\<close> and \<^verbatim>\<open>GetMetadata\<close> fail for every repository path, with the error
  of the listing wrapped, whether or not the file of the tooth asked for is intact.
\<close>

theorem corrupt_file_fails_lookup:
  assumes "MetadataDir ctx = Inr metadataDir"
    and "filepath_Glob d metadataDir = Inr filePaths"
    and "f \<in> set filePaths"
    and "readMetadataFile d f = Inl err"
  shows "\<exists>e. GetAllMetadata d ctx = Inl e \<and>
     IsInstalled d ctx toothRepoPath =
       Inl (Wrapf ''failed to list all installed tooth metadata'' e) \<and>
     GetMetadata d ctx toothRepoPath =
       Inl (Wrapf ''failed to list all installed tooth metadata'' e)"
proof -
  from readMetadataFiles_any_failure [OF assms(3,4), of "[]"]
  obtain e where "readMetadataFiles d filePaths [] = Inl e" by auto
  with assms(1,2) have "GetAllMetadata d ctx = Inl e"
    by (simp add: GetAllMetadata_def)
  then show ?thesis
    by (simp add: IsInstalled_def GetMetadata_def)
qed


lemma example_store:
  "MetadataDir exampleContext = Inr (Path [''store''])"
  "filepath_Glob exampleDeps (Path [''store'']) = Inr [''store/1.json'', ''store/2.json'']"
  "MetadataDir exampleBrokenContext = Inr (Path [''broken''])"
  "filepath_Glob exampleDeps (Path [''broken'']) = Inr [''broken/1.json'', ''broken/2.json'']"
  by (simp_all add: exampleContext_def exampleBrokenContext_def exampleDeps_def)

lemma example_files:
  "readMetadataFile exampleDeps ''store/1.json'' = Inr (exampleMetadata ''example.com/Zeta/z'' [])"
  "readMetadataFile exampleDeps ''store/2.json'' = Inr (exampleMetadata ''example.com/alpha/a'' [])"
  "readMetadataFile exampleDeps ''broken/1.json'' = Inr (exampleMetadata ''example.com/alpha/a'' [])"
  "readMetadataFile exampleDeps ''broken/2.json'' =
     Inl (Wrapf ''failed to parse metadata file'' (Errorf ''invalid manifest''))"
  by (simp_all add: readMetadataFile_def exampleDeps_def)

lemma example_sort:
  "sort_Slice exampleDeps (lessRepoPath exampleDeps)
     [exampleMetadata ''example.com/Zeta/z'' [], exampleMetadata ''example.com/alpha/a'' []] =
     [exampleMetadata ''example.com/alpha/a'' [], exampleMetadata ''example.com/Zeta/z'' []]"
proof -
  have "sort_Slice exampleDeps = sortBy"
    and "strings_ToLower exampleDeps = (\<lambda>s.
        if s = ''example.com/Zeta/z'' then ''example.com/zeta/z'' else s)"
    by (simp_all add: exampleDeps_def)
  then show ?thesis
    by (simp add: sortBy_def lessRepoPath_def ToothRepoPath_def exampleMetadata_def)
qed

lemma example_GetAllMetadata:
  "GetAllMetadata exampleDeps exampleContext =
     Inr [exampleMetadata ''example.com/alpha/a'' [], exampleMetadata ''example.com/Zeta/z'' []]"
  by (simp add: GetAllMetadata_def example_store readMetadataFiles_Cons example_files
      example_sort del: readMetadataFiles.simps(2))

lemma example_sorts:
  "sorts (lessRepoPath exampleDeps)
     [exampleMetadata ''example.com/Zeta/z'' [], exampleMetadata ''example.com/alpha/a'' []]
     (sort_Slice exampleDeps (lessRepoPath exampleDeps)
        [exampleMetadata ''example.com/Zeta/z'' [], exampleMetadata ''example.com/alpha/a'' []])"
proof -
  have "strings_ToLower exampleDeps = (\<lambda>s.
        if s = ''example.com/Zeta/z'' then ''example.com/zeta/z'' else s)"
    by (simp add: exampleDeps_def)
  then show ?thesis
    unfolding example_sort
    by (simp add: sorts_def sortedBy_def lessRepoPath_def ToothRepoPath_def exampleMetadata_def)
qed

theorem GetAllMetadata_listing_witness:
  "GetAllMetadata exampleDeps exampleContext =
     Inr [exampleMetadata ''example.com/alpha/a'' [], exampleMetadata ''example.com/Zeta/z'' []] \<and>
   sorted (map (\<lambda>m. strings_ToLower exampleDeps (ToothRepoPath m))
     [exampleMetadata ''example.com/alpha/a'' [], exampleMetadata ''example.com/Zeta/z'' []]) \<and>
   GetAllMetadata exampleDeps exampleBrokenContext =
     Inl (Wrapf ''failed to parse metadata file'' (Errorf ''invalid manifest''))"
proof (intro conjI)
  note listing = GetAllMetadata_listing [OF example_store(1,2)]
  from listing show all: "GetAllMetadata exampleDeps exampleContext =
     Inr [exampleMetadata ''example.com/alpha/a'' [], exampleMetadata ''example.com/Zeta/z'' []]"
    by (simp add: example_files example_sort)
  have ok: "\<forall>f\<in>set [''store/1.json'', ''store/2.json''].
      \<exists>m. readMetadataFile exampleDeps f = Inr m"
    by (simp add: example_files)
  have srt: "sorts (lessRepoPath exampleDeps)
      (map (\<lambda>f. projr (readMetadataFile exampleDeps f)) [''store/1.json'', ''store/2.json''])
      (sort_Slice exampleDeps (lessRepoPath exampleDeps)
        (map (\<lambda>f. projr (readMetadataFile exampleDeps f))
          [''store/1.json'', ''store/2.json'']))"
    using example_sorts by (simp add: example_files)
  from listing ok srt obtain metadataList where
    "GetAllMetadata exampleDeps exampleContext = Inr metadataList"
    "sorted (map (\<lambda>m. strings_ToLower exampleDeps (ToothRepoPath m)) metadataList)"
    by blast
  with all show "sorted (map (\<lambda>m. strings_ToLower exampleDeps (ToothRepoPath m))
     [exampleMetadata ''example.com/alpha/a'' [], exampleMetadata ''example.com/Zeta/z'' []])"
    by simp
  from GetAllMetadata_listing [OF example_store(3,4)]
  have "\<forall>ok bad rest err.
      [''broken/1.json'', ''broken/2.json''] = ok @ bad # rest \<and>
      (\<forall>f\<in>set ok. \<exists>m. readMetadataFile exampleDeps f = Inr m) \<and>
      readMetadataFile exampleDeps bad = Inl err \<longrightarrow>
      GetAllMetadata exampleDeps exampleBrokenContext = Inl err"
    by blast
  from this [rule_format, of "[''broken/1.json'']" "''broken/2.json''" "[]"]
  show "GetAllMetadata exampleDeps exampleBrokenContext =
     Inl (Wrapf ''failed to parse metadata file'' (Errorf ''invalid manifest''))"
    by (simp add: example_files)
qed

theorem installed_lookup_witness:
  "IsInstalled exampleDeps exampleContext ''example.com/alpha/a'' = Inr True \<and>
   IsInstalled exampleDeps exampleContext ''example.com/Alpha/a'' = Inr False \<and>
   GetMetadata exampleDeps exampleContext ''example.com/Zeta/z'' =
     Inr (exampleMetadata ''example.com/Zeta/z'' []) \<and>
   GetMetadata exampleDeps exampleContext ''example.com/zeta/z'' =
     Inl (NotFound ''example.com/zeta/z'')"
  using installed_lookup [of exampleDeps exampleContext "''example.com/alpha/a''"]
    installed_lookup [of exampleDeps exampleContext "''example.com/Alpha/a''"]
    installed_lookup [of exampleDeps exampleContext "''example.com/Zeta/z''"]
    installed_lookup [of exampleDeps exampleContext "''example.com/zeta/z''"]
  by (simp add: example_GetAllMetadata ToothRepoPath_def exampleMetadata_def)

lemma example_GetAllMetadata_broken:
  "GetAllMetadata exampleDeps exampleBrokenContext =
     Inl (Wrapf ''failed to parse metadata file'' (Errorf ''invalid manifest''))"
  by (simp add: GetAllMetadata_def example_store readMetadataFiles_Cons example_files
      del: readMetadataFiles.simps(2))

theorem corrupt_file_fails_lookup_witness:
  "readMetadataFile exampleDeps ''broken/1.json'' =
     Inr (exampleMetadata ''example.com/alpha/a'' []) \<and>
   IsInstalled exampleDeps exampleBrokenContext ''example.com/alpha/a'' =
     Inl (Wrapf ''failed to list all installed tooth metadata''
            (Wrapf ''failed to parse metadata file'' (Errorf ''invalid manifest''))) \<and>
   GetMetadata exampleDeps exampleBrokenContext ''example.com/alpha/a'' =
     Inl (Wrapf ''failed to list all installed tooth metadata''
            (Wrapf ''failed to parse metadata file'' (Errorf ''invalid manifest'')))"
  using corrupt_file_fails_lookup [OF example_store(3,4) _ example_files(4),
      of "''example.com/alpha/a''"]
  by (auto simp: example_files example_GetAllMetadata_broken)

end
